theory Spec2Isabelle
  imports Complex_Main
begin

section \<open>Library objects used by the two data threads\<close>

text \<open>
  The plugin builds on JUCE (\<open>String\<close>, \<open>StringArray\<close>, \<open>OwnedArray\<close>, \<open>Thread\<close>,
  \<open>Timer\<close>) and on the host's descriptor classes. Only the behaviour the two source
  files rely on is modelled. Pointers into an \<open>OwnedArray\<close> are positions in the
  list that models the array; \<open>None\<close> is the null pointer.
\<close>

datatype fault = NullPointer | DanglingPointer

text \<open>\<open>String (int)\<close>: the decimal representation.\<close>

fun digits :: "nat \<Rightarrow> string" where
  "digits n = (if n < 10 then [''0123456789'' ! n]
               else digits (n div 10) @ [''0123456789'' ! (n mod 10)])"

declare digits.simps [simp del]

definition String_of_int :: "int \<Rightarrow> string" where
  "String_of_int i = (if i < 0 then CHR ''-'' # digits (nat (- i)) else digits (nat i))"

text \<open>\<open>StringArray::operator[]\<close>: the empty string when the index is out of range.\<close>

definition StringArray_at :: "string list \<Rightarrow> int \<Rightarrow> string" where
  "StringArray_at xs i = (if 0 \<le> i \<and> i < int (length xs) then xs ! nat i else [])"

text \<open>\<open>OwnedArray::getLast\<close>, as a position: the null pointer when the array is empty.\<close>

definition getLast :: "'a list \<Rightarrow> nat option" where
  "getLast xs = (if xs = [] then None else Some (length xs - 1))"

text \<open>\<open>juce::Thread\<close>: the flag read by \<open>threadShouldExit\<close> and whether a thread runs.\<close>

record Thread =
  threadRunning :: bool
  shouldExit :: bool

text \<open>
  \<open>Thread::startThread\<close> resets the exit flag and launches a thread unless one is
  running already. Whether the launch succeeds is decided by the operating system: it is
  the argument \<open>launched\<close>.
\<close>

definition startThread :: "bool \<Rightarrow> 'a Thread_scheme \<Rightarrow> 'a Thread_scheme" where
  "startThread launched t =
     t\<lparr>shouldExit := False, threadRunning := (threadRunning t \<or> launched)\<rparr>"

definition signalThreadShouldExit :: "'a Thread_scheme \<Rightarrow> 'a Thread_scheme" where
  "signalThreadShouldExit t = t\<lparr>shouldExit := True\<rparr>"

text \<open>\<open>DataBuffer (chans, size)\<close>; \<open>stored\<close> counts the samples waiting to be read.\<close>

record DataBuffer =
  numChans :: int
  bufSize :: int
  stored :: nat

definition DataBuffer_new :: "int \<Rightarrow> int \<Rightarrow> DataBuffer" where
  "DataBuffer_new chans sz = \<lparr>numChans = chans, bufSize = sz, stored = 0\<rparr>"

definition clear :: "DataBuffer \<Rightarrow> DataBuffer" where
  "clear b = b\<lparr>stored := 0\<rparr>"

record DataStream =
  ds_name :: string
  ds_description :: string
  ds_identifier :: string
  ds_sample_rate :: real

datatype ContinuousChannelType = ELECTRODE | AUX | ADC

record ContinuousChannel =
  cc_type :: ContinuousChannelType
  cc_name :: string
  cc_description :: string
  cc_identifier :: string
  cc_bitVolts :: real
  cc_stream :: "nat option"

datatype EventChannelType = TEXT | TTL | CUSTOM

record EventChannel =
  ev_type :: EventChannelType
  ev_name :: string
  ev_description :: string
  ev_identifier :: string
  ev_stream :: "nat option"

text \<open>The three remaining arrays of \<open>updateSettings\<close> are only ever cleared.\<close>

datatype SpikeChannel = SpikeChannel string
datatype DeviceInfo = DeviceInfo string
datatype ConfigurationObject = ConfigurationObject string

section \<open>Sources\<close>

datatype SimulatedSourceType = AP_BAND | LFP_BAND | NIDAQ

text \<open>
  A source is a \<open>juce::Thread\<close> with a non-owning pointer to its buffer. The fields
  \<open>timerRunning\<close>, \<open>clkFreq\<close> and \<open>clkTol\<close> are the state behind \<open>isTimerRunning\<close> and
  \<open>updateClkFreq\<close>, which both source files name.
\<close>

record source = Thread +
  srcName :: string
  numChannels :: int
  sampleRate :: real
  srcType :: SimulatedSourceType
  buffer :: "nat option"
  timerRunning :: bool
  clkFreq :: int
  clkTol :: real

text \<open>
  Modelled from the spec: the constructor \<open>SimulatedSource (name, channels, sampleRate,
  type)\<close> is declared outside the two source files. Following the data model of the spec
  (a Source is {name, channelCount, sampleRateHz, bandKind, runningState, boundBuffer})
  it stores its arguments; the new object is idle, bound to no buffer, and its sync
  clock is off.
\<close>

definition SimulatedSource :: "string \<Rightarrow> int \<Rightarrow> real \<Rightarrow> SimulatedSourceType \<Rightarrow> source" where
  "SimulatedSource name channels rate type =
     \<lparr>threadRunning = False, shouldExit = False, srcName = name, numChannels = channels,
      sampleRate = rate, srcType = type, buffer = None, timerRunning = False,
      clkFreq = 0, clkTol = 0\<rparr>"

text \<open>
  Modelled from the spec: \<open>source->updateClkFreq (freq, tol)\<close> is declared outside the
  two source files; it "updates the nominal toggle rate and accepted jitter for a
  source's sync-clock".
\<close>

definition source_updateClkFreq :: "int \<Rightarrow> real \<Rightarrow> source \<Rightarrow> source" where
  "source_updateClkFreq freq tol s = s\<lparr>clkFreq := freq, clkTol := tol\<rparr>"

text \<open>The members both data threads have: the sources and their buffers.\<close>

record DataThread =
  sources :: "source list"
  sourceBuffers :: "DataBuffer list"

text \<open>
  \<open>sources.getLast()->buffer = sourceBuffers.getLast()\<close>. Both builders run it right
  after adding a source, so \<open>sources\<close> is never empty there; on an empty array the C++
  dereferences a null pointer, the model leaves the state alone.
\<close>

definition bindLast :: "'a DataThread_scheme \<Rightarrow> 'a DataThread_scheme" where
  "bindLast st =
     st\<lparr>sources := (sources st)[length (sources st) - 1 :=
          (last (sources st))\<lparr>buffer := getLast (sourceBuffers st)\<rparr>]\<rparr>"

section \<open>SourceSimThread\<close>

record PluginSettingsObject =
  numProbes :: int
  channelsPerProbe :: int
  numNIDAQ :: int
  channelsPerNIDAQ :: int

text \<open>
  The state \<open>updateSettings\<close> works on: the six arrays the host passes in and the two
  members \<open>sources\<close> and \<open>sourceBuffers\<close>.
\<close>

record SourceSimThread = DataThread +
  dataStreams :: "DataStream list"
  eventChannels :: "EventChannel list"
  continuousChannels :: "ContinuousChannel list"
  spikeChannels :: "SpikeChannel list"
  devices :: "DeviceInfo list"
  configurationObjects :: "ConfigurationObject list"

text \<open>The string array \<open>probeNames\<close>: sixteen strings of one letter each.\<close>

definition probeNames :: "string list" where
  "probeNames =
     [[CHR ''A''], [CHR ''B''], [CHR ''C''], [CHR ''D''], [CHR ''E''], [CHR ''F''],
      [CHR ''G''], [CHR ''H''], [CHR ''I''], [CHR ''J''], [CHR ''K''], [CHR ''L''],
      [CHR ''M''], [CHR ''N''], [CHR ''O''], [CHR ''P'']]"

definition apSettings :: "int \<Rightarrow> DataStream" where
  "apSettings i =
     \<lparr>ds_name = ''Probe-'' @ StringArray_at probeNames i @ ''-AP'',
      ds_description = ''Neural data sampled @ 30kHz '',
      ds_identifier = ''SP'' @ String_of_int i @ ''_AP'',
      ds_sample_rate = 30000\<rparr>"

definition lfpSettings :: "int \<Rightarrow> DataStream" where
  "lfpSettings i =
     \<lparr>ds_name = ''Probe-'' @ StringArray_at probeNames i @ ''-LFP'',
      ds_description = ''Neural data sampled @ 2.5kHz '',
      ds_identifier = ''SP'' @ String_of_int i @ ''_LFP'',
      ds_sample_rate = 2500\<rparr>"

definition nidaqSettings :: "int \<Rightarrow> DataStream" where
  "nidaqSettings i =
     \<lparr>ds_name = ''Dev'' @ String_of_int i,
      ds_description = ''NIDAQ @ 30 kHz '',
      ds_identifier = ''NI'' @ String_of_int i,
      ds_sample_rate = 30000\<rparr>"

text \<open>The three \<open>channelSettings\<close> initialisers; \<open>0.195f\<close> is the bit-volts value.\<close>

definition apChannelSettings :: "int \<Rightarrow> nat option \<Rightarrow> ContinuousChannel" where
  "apChannelSettings j ds =
     \<lparr>cc_type = ELECTRODE, cc_name = ''CH'' @ String_of_int (j + 1),
      cc_description = ''AP voltage from electrode '' @ String_of_int (j + 1),
      cc_identifier = ''source'', cc_bitVolts = 195 / 1000, cc_stream = ds\<rparr>"

definition lfpChannelSettings :: "int \<Rightarrow> nat option \<Rightarrow> ContinuousChannel" where
  "lfpChannelSettings j ds =
     \<lparr>cc_type = ELECTRODE, cc_name = ''CH'' @ String_of_int (j + 1),
      cc_description = ''LFP voltage from electrode '' @ String_of_int (j + 1),
      cc_identifier = ''source'', cc_bitVolts = 195 / 1000, cc_stream = ds\<rparr>"

definition nidaqChannelSettings :: "int \<Rightarrow> nat option \<Rightarrow> ContinuousChannel" where
  "nidaqChannelSettings j ds =
     \<lparr>cc_type = ADC, cc_name = ''CH'' @ String_of_int (j + 1),
      cc_description = ''ADC voltage from channel '' @ String_of_int (j + 1),
      cc_identifier = ''source'', cc_bitVolts = 195 / 1000, cc_stream = ds\<rparr>"

definition apSyncSettings :: "int \<Rightarrow> nat option \<Rightarrow> EventChannel" where
  "apSyncSettings i ds =
     \<lparr>ev_type = TTL, ev_name = ''AP Sync Line'',
      ev_description =
        ''Synchronization signal from the AP band of simulated probe '' @ String_of_int i,
      ev_identifier = ''probe.sync'', ev_stream = ds\<rparr>"

definition lfpSyncSettings :: "int \<Rightarrow> nat option \<Rightarrow> EventChannel" where
  "lfpSyncSettings i ds =
     \<lparr>ev_type = TTL, ev_name = ''LFP Sync Line'',
      ev_description =
        ''Synchronization signal from the LFP band of simulated probe '' @ String_of_int i,
      ev_identifier = ''probe.sync'', ev_stream = ds\<rparr>"

definition nidaqSyncSettings :: "int \<Rightarrow> nat option \<Rightarrow> EventChannel" where
  "nidaqSyncSettings i ds =
     \<lparr>ev_type = TTL, ev_name = ''NIDAQ Sync Line'',
      ev_description = ''Synchronization signal from the NIDAQ '' @ String_of_int i,
      ev_identifier = ''probe.sync'', ev_stream = ds\<rparr>"

text \<open>
  The inner loop \<open>for (int j = 0; j < n; j++) continuousChannels->add (...)\<close>, which the
  source writes three times with three initialisers; \<open>mk\<close> is the initialiser.
\<close>

function channelLoop ::
  "(int \<Rightarrow> nat option \<Rightarrow> ContinuousChannel) \<Rightarrow> int \<Rightarrow> int \<Rightarrow> SourceSimThread \<Rightarrow> SourceSimThread"
where
  "channelLoop mk j n st =
     (if j < n
      then channelLoop mk (j + 1) n
             (st\<lparr>continuousChannels :=
                   continuousChannels st @ [mk j (getLast (dataStreams st))]\<rparr>)
      else st)"
  by pat_completeness auto
termination
  by (relation "measure (\<lambda>(mk, j, n, st). nat (n - j))") auto

declare channelLoop.simps [simp del]

text \<open>The body of the probe loop, statement by statement.\<close>

definition probeBody :: "PluginSettingsObject \<Rightarrow> int \<Rightarrow> SourceSimThread \<Rightarrow> SourceSimThread" where
  "probeBody settings i st0 =
    (let apBandName = ''Probe-'' @ StringArray_at probeNames i @ ''-AP'';
         lfpBandName = ''Probe-'' @ StringArray_at probeNames i @ ''-LFP'';
         st1 = st0\<lparr>dataStreams := dataStreams st0 @ [apSettings i]\<rparr>;
         st2 = st1\<lparr>sources := sources st1 @
                  [SimulatedSource apBandName (channelsPerProbe settings) 30000 AP_BAND]\<rparr>;
         st3 = st2\<lparr>sourceBuffers := sourceBuffers st2 @
                  [DataBuffer_new (channelsPerProbe settings) 48000]\<rparr>;
         st4 = bindLast st3;
         st5 = channelLoop apChannelSettings 0 (channelsPerProbe settings) st4;
         st6 = st5\<lparr>eventChannels := eventChannels st5 @
                  [apSyncSettings i (getLast (dataStreams st5))]\<rparr>;
         st7 = st6\<lparr>dataStreams := dataStreams st6 @ [lfpSettings i]\<rparr>;
         st8 = st7\<lparr>sources := sources st7 @
                  [SimulatedSource lfpBandName (channelsPerProbe settings) 2500 LFP_BAND]\<rparr>;
         st9 = st8\<lparr>sourceBuffers := sourceBuffers st8 @
                  [DataBuffer_new (channelsPerProbe settings) 48000]\<rparr>;
         st10 = bindLast st9;
         st11 = channelLoop lfpChannelSettings 0 (channelsPerProbe settings) st10
     in st11\<lparr>eventChannels := eventChannels st11 @
                  [lfpSyncSettings i (getLast (dataStreams st11))]\<rparr>)"

function probeLoop :: "PluginSettingsObject \<Rightarrow> int \<Rightarrow> SourceSimThread \<Rightarrow> SourceSimThread" where
  "probeLoop settings i st =
     (if i < numProbes settings then probeLoop settings (i + 1) (probeBody settings i st)
      else st)"
  by pat_completeness auto
termination
  by (relation "measure (\<lambda>(settings, i, st). nat (numProbes settings - i))") auto

declare probeLoop.simps [simp del]

definition nidaqBody :: "PluginSettingsObject \<Rightarrow> int \<Rightarrow> SourceSimThread \<Rightarrow> SourceSimThread" where
  "nidaqBody settings i st0 =
    (let nidaqName = ''Dev'' @ String_of_int i;
         st1 = st0\<lparr>dataStreams := dataStreams st0 @ [nidaqSettings i]\<rparr>;
         st2 = st1\<lparr>sources := sources st1 @
                  [SimulatedSource nidaqName (channelsPerNIDAQ settings) 30000 NIDAQ]\<rparr>;
         st3 = st2\<lparr>sourceBuffers := sourceBuffers st2 @
                  [DataBuffer_new (channelsPerNIDAQ settings) 48000]\<rparr>;
         st4 = bindLast st3;
         st5 = channelLoop nidaqChannelSettings 0 (channelsPerNIDAQ settings) st4
     in st5\<lparr>eventChannels := eventChannels st5 @
                  [nidaqSyncSettings i (getLast (dataStreams st5))]\<rparr>)"

function nidaqLoop :: "PluginSettingsObject \<Rightarrow> int \<Rightarrow> SourceSimThread \<Rightarrow> SourceSimThread" where
  "nidaqLoop settings i st =
     (if i < numNIDAQ settings then nidaqLoop settings (i + 1) (nidaqBody settings i st)
      else st)"
  by pat_completeness auto
termination
  by (relation "measure (\<lambda>(settings, i, st). nat (numNIDAQ settings - i))") auto

declare nidaqLoop.simps [simp del]

text \<open>
  \<open>SourceSimThread::updateSettings\<close>; \<open>settings\<close> is what \<open>sse->getSettings\<close> delivers.
  The eight \<open>clear ()\<close> calls come first, in the order of the source.
\<close>

definition clearAll :: "SourceSimThread \<Rightarrow> SourceSimThread" where
  "clearAll st =
     st\<lparr>dataStreams := [], eventChannels := [], continuousChannels := [],
        spikeChannels := [], devices := [], configurationObjects := [],
        sources := [], sourceBuffers := []\<rparr>"

definition updateSettings :: "PluginSettingsObject \<Rightarrow> SourceSimThread \<Rightarrow> SourceSimThread" where
  "updateSettings settings st =
     nidaqLoop settings 0 (probeLoop settings 0 (clearAll st))"

text \<open>The constructor leaves every array empty.\<close>

definition SourceSimThread_new :: SourceSimThread where
  "SourceSimThread_new =
     \<lparr>sources = [], sourceBuffers = [], dataStreams = [], eventChannels = [],
      continuousChannels = [], spikeChannels = [], devices = [],
      configurationObjects = []\<rparr>"



definition foundInputSource :: "SourceSimThread \<Rightarrow> bool" where
  "foundInputSource st = True"

subsection \<open>Starting and stopping\<close>

text \<open>The calls a data thread makes on its buffers and threads, in the order made.\<close>

datatype call =
    BufferClear nat
  | StartThread nat
  | SignalThreadShouldExit nat
  | StartOwnThread
  | SignalOwnThreadShouldExit

text \<open>\<open>for (auto source : sources) source->buffer->clear ();\<close>\<close>

fun clearBuffers :: "source list \<Rightarrow> DataBuffer list \<Rightarrow> fault + call list \<times> DataBuffer list" where
  "clearBuffers [] bufs = Inr ([], bufs)"
| "clearBuffers (s # ss) bufs =
     (case buffer s of
        None \<Rightarrow> Inl NullPointer
      | Some b \<Rightarrow>
          if b < length bufs
          then (case clearBuffers ss (bufs[b := clear (bufs ! b)]) of
                  Inl f \<Rightarrow> Inl f
                | Inr (tr, bufs') \<Rightarrow> Inr (BufferClear b # tr, bufs'))
          else Inl DanglingPointer)"

text \<open>
  \<open>for (auto source : sources) source->startThread ();\<close> The source at position \<open>i\<close> is
  launched with success \<open>launch i\<close>.
\<close>

fun startThreads :: "(nat \<Rightarrow> bool) \<Rightarrow> nat \<Rightarrow> source list \<Rightarrow> call list \<times> source list" where
  "startThreads launch i [] = ([], [])"
| "startThreads launch i (s # ss) =
     (case startThreads launch (Suc i) ss of
        (tr, ss') \<Rightarrow> (StartThread i # tr, startThread (launch i) s # ss'))"

text \<open>\<open>for (auto source : sources) source->signalThreadShouldExit ();\<close>\<close>

fun signalThreads :: "nat \<Rightarrow> source list \<Rightarrow> call list \<times> source list" where
  "signalThreads i [] = ([], [])"
| "signalThreads i (s # ss) =
     (case signalThreads (Suc i) ss of
        (tr, ss') \<Rightarrow> (SignalThreadShouldExit i # tr, signalThreadShouldExit s # ss'))"

text \<open>
  \<open>SourceSimThread::startAcquisition\<close>: the returned value, the calls made and the new
  state, or the fault of following a pointer that points nowhere.
\<close>

definition startAcquisition ::
  "(nat \<Rightarrow> bool) \<Rightarrow> SourceSimThread \<Rightarrow> fault + bool \<times> call list \<times> SourceSimThread" where
  "startAcquisition launch st =
     (case clearBuffers (sources st) (sourceBuffers st) of
        Inl f \<Rightarrow> Inl f
      | Inr (tr1, bufs) \<Rightarrow>
          (case startThreads launch 0 (sources st) of
             (tr2, srcs) \<Rightarrow>
               Inr (True, tr1 @ tr2, st\<lparr>sources := srcs, sourceBuffers := bufs\<rparr>)))"

definition stopAcquisition :: "SourceSimThread \<Rightarrow> bool \<times> call list \<times> SourceSimThread" where
  "stopAcquisition st =
     (case signalThreads 0 (sources st) of
        (tr, srcs) \<Rightarrow> (True, tr, st\<lparr>sources := srcs\<rparr>))"

section \<open>SourceThread\<close>

text \<open>
  The classes \<open>NPX_AP_BAND\<close>, \<open>NPX_LFP_BAND\<close> and \<open>NIDAQ\<close> are declared outside the two
  source files. Their constructors, which take the channel count, are parameters of the
  model.
\<close>

record source_classes =
  new_NPX_AP_BAND :: "int \<Rightarrow> source"
  new_NPX_LFP_BAND :: "int \<Rightarrow> source"
  new_NIDAQ :: "int \<Rightarrow> source"

text \<open>
  Modelled from the spec: one instance of the three missing classes, for concrete
  examples. The glossary gives the rates (AP 30 kHz, LFP 2.5 kHz, auxiliary input
  30 kHz); the names are the band names.
\<close>

definition spec_classes :: source_classes where
  "spec_classes =
     \<lparr>new_NPX_AP_BAND = (\<lambda>n. SimulatedSource ''AP'' n 30000 AP_BAND),
      new_NPX_LFP_BAND = (\<lambda>n. SimulatedSource ''LFP'' n 2500 LFP_BAND),
      new_NIDAQ = (\<lambda>n. SimulatedSource ''NIDAQ'' n 30000 NIDAQ)\<rparr>"

text \<open>
  The members of \<open>SourceThread\<close>; \<open>self\<close> is the thread the object itself is, and
  \<open>numProbes_t\<close> is the member \<open>numProbes\<close>.
\<close>

record SourceThread = DataThread +
  self :: Thread
  numProbes_t :: int
  numChannelsPerProbe :: int
  numNIDevices :: int
  numChannelsPerNIDAQDevice :: int

definition genProbeBody :: "source_classes \<Rightarrow> SourceThread \<Rightarrow> SourceThread" where
  "genProbeBody K th0 =
    (let th1 = th0\<lparr>sources := sources th0 @ [new_NPX_AP_BAND K (numChannelsPerProbe th0)]\<rparr>;
         th2 = th1\<lparr>sourceBuffers := sourceBuffers th1 @
                  [DataBuffer_new (numChannels (last (sources th1))) 1000]\<rparr>;
         th3 = bindLast th2;
         th4 = th3\<lparr>sources := sources th3 @ [new_NPX_LFP_BAND K (numChannelsPerProbe th3)]\<rparr>;
         th5 = th4\<lparr>sourceBuffers := sourceBuffers th4 @
                  [DataBuffer_new (numChannels (last (sources th4))) 1000]\<rparr>
     in bindLast th5)"

definition genNidaqBody :: "source_classes \<Rightarrow> SourceThread \<Rightarrow> SourceThread" where
  "genNidaqBody K th0 =
    (let th1 = th0\<lparr>sources := sources th0 @ [new_NIDAQ K (numChannelsPerNIDAQDevice th0)]\<rparr>;
         th2 = th1\<lparr>sourceBuffers := sourceBuffers th1 @
                  [DataBuffer_new (numChannels (last (sources th1))) 1000]\<rparr>
     in bindLast th2)"

function genProbeLoop :: "source_classes \<Rightarrow> int \<Rightarrow> SourceThread \<Rightarrow> SourceThread" where
  "genProbeLoop K i th =
     (if i < numProbes_t th then genProbeLoop K (i + 1) (genProbeBody K th) else th)"
  by pat_completeness auto
termination
  by (relation "measure (\<lambda>(K, i, th). nat (numProbes_t th - i))")
    (auto simp: genProbeBody_def Let_def bindLast_def)

declare genProbeLoop.simps [simp del]

function genNidaqLoop :: "source_classes \<Rightarrow> int \<Rightarrow> SourceThread \<Rightarrow> SourceThread" where
  "genNidaqLoop K i th =
     (if i < numNIDevices th then genNidaqLoop K (i + 1) (genNidaqBody K th) else th)"
  by pat_completeness auto
termination
  by (relation "measure (\<lambda>(K, i, th). nat (numNIDevices th - i))")
    (auto simp: genNidaqBody_def Let_def bindLast_def)

declare genNidaqLoop.simps [simp del]

definition generateBuffers :: "source_classes \<Rightarrow> SourceThread \<Rightarrow> SourceThread" where
  "generateBuffers K th =
     genNidaqLoop K 0 (genProbeLoop K 0 (th\<lparr>sources := [], sourceBuffers := []\<rparr>))"

text \<open>The constructor, with \<open>NUM_PROBES\<close>, \<open>AP_CHANNELS\<close>, \<open>NUM_NI_DEVICES\<close>, \<open>NIDAQ_CHANNELS\<close>.\<close>

definition SourceThread_new :: "source_classes \<Rightarrow> SourceThread" where
  "SourceThread_new K =
     generateBuffers K
       \<lparr>sources = [], sourceBuffers = [],
        self = \<lparr>threadRunning = False, shouldExit = False\<rparr>,
        numProbes_t = 6, numChannelsPerProbe = 384, numNIDevices = 1,
        numChannelsPerNIDAQDevice = 8\<rparr>"

text \<open>The four setters; \<open>sn->update ()\<close> is the host's business.\<close>

definition updateNPXChannels :: "source_classes \<Rightarrow> int \<Rightarrow> SourceThread \<Rightarrow> SourceThread" where
  "updateNPXChannels K channels th = generateBuffers K (th\<lparr>numChannelsPerProbe := channels\<rparr>)"

definition updateNumProbes :: "source_classes \<Rightarrow> int \<Rightarrow> SourceThread \<Rightarrow> SourceThread" where
  "updateNumProbes K probes th = generateBuffers K (th\<lparr>numProbes_t := probes\<rparr>)"

definition updateNIDAQChannels :: "source_classes \<Rightarrow> int \<Rightarrow> SourceThread \<Rightarrow> SourceThread" where
  "updateNIDAQChannels K channels th =
     generateBuffers K (th\<lparr>numChannelsPerNIDAQDevice := channels\<rparr>)"

definition updateNIDAQDeviceCount :: "source_classes \<Rightarrow> int \<Rightarrow> SourceThread \<Rightarrow> SourceThread" where
  "updateNIDAQDeviceCount K count th = generateBuffers K (th\<lparr>numNIDevices := count\<rparr>)"

text \<open>
  Modelled from the spec: \<open>source->updateClk (enable)\<close> is declared outside the two
  source files; it "turns a given source's sync clock on/off".
\<close>

definition source_updateClk :: "bool \<Rightarrow> source \<Rightarrow> source" where
  "source_updateClk enable s = s\<lparr>timerRunning := enable\<rparr>"

text \<open>
  \<open>SourceThread::updateClkEnable\<close>: \<open>sources[subProcIdx]\<close> is the null pointer when the
  index is out of range.
\<close>

definition updateClkEnable_t :: "int \<Rightarrow> bool \<Rightarrow> SourceThread \<Rightarrow> fault + SourceThread" where
  "updateClkEnable_t subProcIdx enable th =
     (if 0 \<le> subProcIdx \<and> subProcIdx < int (length (sources th))
      then Inr (th\<lparr>sources := (sources th)[nat subProcIdx :=
                  source_updateClk enable (sources th ! nat subProcIdx)]\<rparr>)
      else Inl NullPointer)"

text \<open>\<open>SourceThread::updateClkFreq\<close>: the loop over the sources with its guard.\<close>

fun updateClkFreqLoop :: "int \<Rightarrow> real \<Rightarrow> source list \<Rightarrow> source list" where
  "updateClkFreqLoop freq tol [] = []"
| "updateClkFreqLoop freq tol (s # ss) =
     (if timerRunning s then source_updateClkFreq freq tol s else s) #
     updateClkFreqLoop freq tol ss"

definition updateClkFreq_t :: "int \<Rightarrow> real \<Rightarrow> SourceThread \<Rightarrow> SourceThread" where
  "updateClkFreq_t freq tol th = th\<lparr>sources := updateClkFreqLoop freq tol (sources th)\<rparr>"

text \<open>
  \<open>SourceThread::startAcquisition\<close>: \<open>sourceBuffers.getLast()->clear ()\<close>, the loop
  \<open>sources[i]->startThread ()\<close>, then \<open>this->startThread ()\<close>, whose launch succeeds
  when \<open>own\<close> holds.
\<close>

definition startAcquisition_t ::
  "(nat \<Rightarrow> bool) \<Rightarrow> bool \<Rightarrow> SourceThread \<Rightarrow> fault + bool \<times> call list \<times> SourceThread" where
  "startAcquisition_t launch own th =
     (case getLast (sourceBuffers th) of
        None \<Rightarrow> Inl NullPointer
      | Some b \<Rightarrow>
          (case startThreads launch 0 (sources th) of
             (tr, srcs) \<Rightarrow>
               Inr (True, BufferClear b # tr @ [StartOwnThread],
                    th\<lparr>sourceBuffers := (sourceBuffers th)[b := clear (sourceBuffers th ! b)],
                       sources := srcs,
                       self := startThread own (self th)\<rparr>)))"

text \<open>\<open>SourceThread::stopAcquisition\<close>\<close>

definition stopAcquisition_t :: "SourceThread \<Rightarrow> bool \<times> call list \<times> SourceThread" where
  "stopAcquisition_t th =
     (case signalThreads 0 (sources th) of
        (tr, srcs) \<Rightarrow>
          if threadRunning (self th)
          then (True, tr @ [SignalOwnThreadShouldExit],
                th\<lparr>sources := srcs, self := signalThreadShouldExit (self th)\<rparr>)
          else (True, tr, th\<lparr>sources := srcs\<rparr>))"

text \<open>\<open>SourceThread::getNumTTLOutputs\<close>\<close>

definition getNumTTLOutputs :: "SourceThread \<Rightarrow> int \<Rightarrow> int" where
  "getNumTTLOutputs th subProcessorIdx =
     (if subProcessorIdx < 2 * numProbes_t th then 1 else numChannelsPerNIDAQDevice th)"

section \<open>Observations\<close>

text \<open>
  What a reader of the topology sees of stream \<open>k\<close>: its name, its sample rate, the
  types of the continuous channels that point to it and the types of the event channels
  that point to it, each in the order of its array.
\<close>

definition chanTypesOf :: "nat \<Rightarrow> SourceSimThread \<Rightarrow> ContinuousChannelType list" where
  "chanTypesOf k st =
     map cc_type (filter (\<lambda>c. cc_stream c = Some k) (continuousChannels st))"

definition syncTypesOf :: "nat \<Rightarrow> SourceSimThread \<Rightarrow> EventChannelType list" where
  "syncTypesOf k st =
     map ev_type (filter (\<lambda>e. ev_stream e = Some k) (eventChannels st))"

definition streamView ::
  "SourceSimThread \<Rightarrow> nat \<Rightarrow>
   string \<times> real \<times> ContinuousChannelType list \<times> EventChannelType list" where
  "streamView st k =
     (ds_name (dataStreams st ! k), ds_sample_rate (dataStreams st ! k),
      chanTypesOf k st, syncTypesOf k st)"

definition topologyView ::
  "SourceSimThread \<Rightarrow>
   (string \<times> real \<times> ContinuousChannelType list \<times> EventChannelType list) list" where
  "topologyView st = map (streamView st) [0..<length (dataStreams st)]"

text \<open>
  Every channel and every event channel points to a stream of the topology, so the view
  leaves none of them out.
\<close>

definition linked :: "SourceSimThread \<Rightarrow> bool" where
  "linked st \<longleftrightarrow>
     (\<forall>c \<in> set (continuousChannels st). \<exists>k < length (dataStreams st). cc_stream c = Some k) \<and>
     (\<forall>e \<in> set (eventChannels st). \<exists>k < length (dataStreams st). ev_stream e = Some k)"

text \<open>The letter of probe \<open>i\<close> in the alphabet A to P of the specification.\<close>

definition letter :: "int \<Rightarrow> string" where
  "letter i = [''ABCDEFGHIJKLMNOP'' ! nat i]"

text \<open>A source as its constructor left it, before a buffer was bound to it.\<close>

definition unbound :: "source \<Rightarrow> source" where
  "unbound s = s\<lparr>buffer := None\<rparr>"

text \<open>The three parts of what a start or a stop delivers; \<open>None\<close> after a fault.\<close>

definition returned :: "fault + bool \<times> call list \<times> 'st \<Rightarrow> bool option" where
  "returned r = (case r of Inl f \<Rightarrow> None | Inr (b, tr, st) \<Rightarrow> Some b)"

definition calls_made :: "fault + bool \<times> call list \<times> 'st \<Rightarrow> call list option" where
  "calls_made r = (case r of Inl f \<Rightarrow> None | Inr (b, tr, st) \<Rightarrow> Some tr)"

definition state_after :: "fault + bool \<times> call list \<times> 'st \<Rightarrow> 'st option" where
  "state_after r = (case r of Inl f \<Rightarrow> None | Inr (b, tr, st) \<Rightarrow> Some st)"

subsection \<open>Auxiliary notions of the proofs\<close>

text \<open>
  One stream with all that belongs to it, as a single update of the state: the stream,
  its source bound to its buffer, \<open>n\<close> channels and one event channel.
\<close>

definition emitBlock ::
  "DataStream \<Rightarrow> source \<Rightarrow> DataBuffer \<Rightarrow> (int \<Rightarrow> nat option \<Rightarrow> ContinuousChannel) \<Rightarrow> int \<Rightarrow>
   (nat option \<Rightarrow> EventChannel) \<Rightarrow> SourceSimThread \<Rightarrow> SourceSimThread" where
  "emitBlock ds src buf mk n ev st =
     st\<lparr>dataStreams := dataStreams st @ [ds],
        sources := sources st @ [src\<lparr>buffer := Some (length (sourceBuffers st))\<rparr>],
        sourceBuffers := sourceBuffers st @ [buf],
        continuousChannels :=
          continuousChannels st @ map (\<lambda>j. mk j (Some (length (dataStreams st)))) [0..n - 1],
        eventChannels := eventChannels st @ [ev (Some (length (dataStreams st)))]\<rparr>"

text \<open>
  Source \<open>k\<close> points to buffer \<open>k\<close>, every buffer has capacity \<open>cap\<close> and as many
  channels as its source.
\<close>

definition paired :: "int \<Rightarrow> 'a DataThread_scheme \<Rightarrow> bool" where
  "paired cap st \<longleftrightarrow>
     map buffer (sources st) = map Some [0..<length (sourceBuffers st)] \<and>
     map bufSize (sourceBuffers st) = replicate (length (sourceBuffers st)) cap \<and>
     map numChans (sourceBuffers st) = map numChannels (sources st)"

text \<open>The rows of the view that the source's own names give.\<close>

definition apRow ::
  "PluginSettingsObject \<Rightarrow> int \<Rightarrow>
   string \<times> real \<times> ContinuousChannelType list \<times> EventChannelType list" where
  "apRow settings i =
     (''Probe-'' @ StringArray_at probeNames i @ ''-AP'', 30000,
      replicate (nat (channelsPerProbe settings)) ELECTRODE, [TTL])"

definition lfpRow ::
  "PluginSettingsObject \<Rightarrow> int \<Rightarrow>
   string \<times> real \<times> ContinuousChannelType list \<times> EventChannelType list" where
  "lfpRow settings i =
     (''Probe-'' @ StringArray_at probeNames i @ ''-LFP'', 2500,
      replicate (nat (channelsPerProbe settings)) ELECTRODE, [TTL])"

definition nidaqRow ::
  "PluginSettingsObject \<Rightarrow> int \<Rightarrow>
   string \<times> real \<times> ContinuousChannelType list \<times> EventChannelType list" where
  "nidaqRow settings i =
     (''Dev'' @ String_of_int i, 30000,
      replicate (nat (channelsPerNIDAQ settings)) ADC, [TTL])"

section \<open>Concrete configurations and states\<close>

definition seventeen_probes :: PluginSettingsObject where
  "seventeen_probes =
     \<lparr>numProbes = 17, channelsPerProbe = 1, numNIDAQ = 0, channelsPerNIDAQ = 0\<rparr>"

definition one_probe :: PluginSettingsObject where
  "one_probe = \<lparr>numProbes = 1, channelsPerProbe = 1, numNIDAQ = 0, channelsPerNIDAQ = 0\<rparr>"

text \<open>The two ways a launch can go for all sources alike.\<close>

definition launch_succeeds :: "nat \<Rightarrow> bool" where
  "launch_succeeds i = True"

definition launch_fails :: "nat \<Rightarrow> bool" where
  "launch_fails i = False"

text \<open>Which generator threads run.\<close>

definition threads_running :: "'a DataThread_scheme \<Rightarrow> bool list" where
  "threads_running st = map threadRunning (sources st)"

text \<open>The unread samples of each buffer.\<close>

definition samples_stored :: "'a DataThread_scheme \<Rightarrow> nat list" where
  "samples_stored st = map stored (sourceBuffers st)"

text \<open>A state in which the generators of an earlier run left \<open>n\<close> samples in every buffer.\<close>

definition written :: "nat \<Rightarrow> 'a DataThread_scheme \<Rightarrow> 'a DataThread_scheme" where
  "written n st = st\<lparr>sourceBuffers := map (stored_update (\<lambda>_. n)) (sourceBuffers st)\<rparr>"

section \<open>The states a SourceSimThread reaches\<close>




section \<open>Properties of the model\<close>

subsection \<open>SourceSimThread: the loops in closed form\<close>

lemma clearAll_new: "clearAll st = SourceSimThread_new"
  by (simp add: clearAll_def SourceSimThread_new_def)

lemma channelLoop_closed:
  "channelLoop mk j n st =
     st\<lparr>continuousChannels :=
          continuousChannels st @ map (\<lambda>j. mk j (getLast (dataStreams st))) [j..n - 1]\<rparr>"
proof (induction mk j n st rule: channelLoop.induct)
  case (1 mk j n st)
  show ?case
  proof (cases "j < n")
    case True
    then have "[j..n - 1] = j # [j + 1..n - 1]"
      by (simp add: upto_rec1)
    with True 1 show ?thesis
      by (simp add: channelLoop.simps [of mk j n st])
  next
    case False
    then show ?thesis
      by (simp add: channelLoop.simps [of mk j n st])
  qed
qed

lemma probeBody_blocks:
  "probeBody settings i st =
     emitBlock (lfpSettings i)
       (SimulatedSource (ds_name (lfpSettings i)) (channelsPerProbe settings) 2500 LFP_BAND)
       (DataBuffer_new (channelsPerProbe settings) 48000)
       lfpChannelSettings (channelsPerProbe settings) (lfpSyncSettings i)
       (emitBlock (apSettings i)
          (SimulatedSource (ds_name (apSettings i)) (channelsPerProbe settings) 30000 AP_BAND)
          (DataBuffer_new (channelsPerProbe settings) 48000)
          apChannelSettings (channelsPerProbe settings) (apSyncSettings i) st)"
  by (simp add: probeBody_def emitBlock_def Let_def bindLast_def getLast_def
      channelLoop_closed apSettings_def lfpSettings_def)

lemma nidaqBody_blocks:
  "nidaqBody settings i st =
     emitBlock (nidaqSettings i)
       (SimulatedSource (ds_name (nidaqSettings i)) (channelsPerNIDAQ settings) 30000 NIDAQ)
       (DataBuffer_new (channelsPerNIDAQ settings) 48000)
       nidaqChannelSettings (channelsPerNIDAQ settings) (nidaqSyncSettings i) st"
  by (simp add: nidaqBody_def emitBlock_def Let_def bindLast_def getLast_def
      channelLoop_closed nidaqSettings_def)

subsection \<open>SourceSimThread: what a reader sees of each stream\<close>

lemma emitBlock_view:
  assumes "linked st"
    and mk: "\<And>j p. cc_stream (mk j p) = p \<and> cc_type (mk j p) = ty"
    and ev: "\<And>p. ev_stream (ev p) = p \<and> ev_type (ev p) = ety"
  shows "topologyView (emitBlock ds src buf mk n ev st) =
           topologyView st @ [(ds_name ds, ds_sample_rate ds, replicate (nat n) ty, [ety])]"
    and "linked (emitBlock ds src buf mk n ev st)"
proof -
  let ?m = "length (dataStreams st)"
  let ?st' = "emitBlock ds src buf mk n ev st"
  have old: "streamView ?st' k = streamView st k" if "k < ?m" for k
    using that mk ev
    by (simp add: streamView_def chanTypesOf_def syncTypesOf_def emitBlock_def nth_append
        filter_map o_def)
  have noc: "filter (\<lambda>c. cc_stream c = Some ?m) (continuousChannels st) = []"
    using assms(1) by (auto simp: linked_def filter_empty_conv)
  have noe: "filter (\<lambda>e. ev_stream e = Some ?m) (eventChannels st) = []"
    using assms(1) by (auto simp: linked_def filter_empty_conv)
  have new: "streamView ?st' ?m = (ds_name ds, ds_sample_rate ds, replicate (nat n) ty, [ety])"
    using mk ev noc noe
    by (simp add: streamView_def chanTypesOf_def syncTypesOf_def emitBlock_def
        filter_map o_def map_replicate_const)
  have "topologyView ?st' = map (streamView ?st') [0..<?m] @ [streamView ?st' ?m]"
    by (simp add: topologyView_def emitBlock_def)
  also have "map (streamView ?st') [0..<?m] = map (streamView st) [0..<?m]"
    using old by simp
  finally show "topologyView ?st' =
      topologyView st @ [(ds_name ds, ds_sample_rate ds, replicate (nat n) ty, [ety])]"
    using new by (simp add: topologyView_def)
  show "linked ?st'"
    using assms(1) mk ev
    by (auto simp: linked_def emitBlock_def less_Suc_eq)
qed

lemma probeBody_view:
  assumes "linked st"
  shows "topologyView (probeBody settings i st) =
           topologyView st @ [apRow settings i, lfpRow settings i]"
    and "linked (probeBody settings i st)"
proof -
  let ?ap = "emitBlock (apSettings i)
          (SimulatedSource (ds_name (apSettings i)) (channelsPerProbe settings) 30000 AP_BAND)
          (DataBuffer_new (channelsPerProbe settings) 48000)
          apChannelSettings (channelsPerProbe settings) (apSyncSettings i) st"
  have ap: "topologyView ?ap = topologyView st @ [apRow settings i]" "linked ?ap"
    using emitBlock_view [OF assms, of apChannelSettings ELECTRODE "apSyncSettings i" TTL]
    by (simp_all add: apChannelSettings_def apSyncSettings_def apRow_def apSettings_def)
  show "topologyView (probeBody settings i st) =
           topologyView st @ [apRow settings i, lfpRow settings i]"
    using emitBlock_view(1) [OF ap(2), of lfpChannelSettings ELECTRODE "lfpSyncSettings i" TTL] ap(1)
    by (simp add: probeBody_blocks lfpChannelSettings_def lfpSyncSettings_def lfpRow_def
        lfpSettings_def)
  show "linked (probeBody settings i st)"
    using emitBlock_view(2) [OF ap(2), of lfpChannelSettings ELECTRODE "lfpSyncSettings i" TTL]
    by (simp add: probeBody_blocks lfpChannelSettings_def lfpSyncSettings_def)
qed

lemma nidaqBody_view:
  assumes "linked st"
  shows "topologyView (nidaqBody settings i st) = topologyView st @ [nidaqRow settings i]"
    and "linked (nidaqBody settings i st)"
  using emitBlock_view [OF assms, of nidaqChannelSettings ADC "nidaqSyncSettings i" TTL]
  by (simp_all add: nidaqBody_blocks nidaqChannelSettings_def nidaqSyncSettings_def
      nidaqRow_def nidaqSettings_def)

lemma probeLoop_view:
  "linked st \<Longrightarrow>
   topologyView (probeLoop settings i st) =
     topologyView st @
       concat (map (\<lambda>i. [apRow settings i, lfpRow settings i]) [i..numProbes settings - 1]) \<and>
   linked (probeLoop settings i st)"
proof (induction settings i st rule: probeLoop.induct)
  case (1 settings i st)
  show ?case
  proof (cases "i < numProbes settings")
    case True
    then have "[i..numProbes settings - 1] = i # [i + 1..numProbes settings - 1]"
      by (simp add: upto_rec1)
    with True 1 probeBody_view [OF "1.prems", of settings i] show ?thesis
      by (simp add: probeLoop.simps [of settings i st])
  next
    case False
    with 1 show ?thesis
      by (simp add: probeLoop.simps [of settings i st])
  qed
qed

lemma nidaqLoop_view:
  "linked st \<Longrightarrow>
   topologyView (nidaqLoop settings i st) =
     topologyView st @ map (nidaqRow settings) [i..numNIDAQ settings - 1] \<and>
   linked (nidaqLoop settings i st)"
proof (induction settings i st rule: nidaqLoop.induct)
  case (1 settings i st)
  show ?case
  proof (cases "i < numNIDAQ settings")
    case True
    then have "[i..numNIDAQ settings - 1] = i # [i + 1..numNIDAQ settings - 1]"
      by (simp add: upto_rec1)
    with True 1 nidaqBody_view [OF "1.prems", of settings i] show ?thesis
      by (simp add: nidaqLoop.simps [of settings i st])
  next
    case False
    with 1 show ?thesis
      by (simp add: nidaqLoop.simps [of settings i st])
  qed
qed

lemma linked_new: "linked SourceSimThread_new"
  by (simp add: linked_def SourceSimThread_new_def)

lemma topologyView_new: "topologyView SourceSimThread_new = []"
  by (simp add: topologyView_def SourceSimThread_new_def)

lemma updateSettings_view:
  "topologyView (updateSettings settings st) =
     concat (map (\<lambda>i. [apRow settings i, lfpRow settings i]) [0..numProbes settings - 1]) @
     map (nidaqRow settings) [0..numNIDAQ settings - 1]"
  using probeLoop_view [OF linked_new, of settings 0]
    nidaqLoop_view [of "probeLoop settings 0 SourceSimThread_new" settings 0]
  by (simp add: updateSettings_def clearAll_new topologyView_new)

lemma updateSettings_linked: "linked (updateSettings settings st)"
  using probeLoop_view [OF linked_new, of settings 0]
    nidaqLoop_view [of "probeLoop settings 0 SourceSimThread_new" settings 0]
  by (simp add: updateSettings_def clearAll_new)

lemma letter_probeNames:
  assumes "0 \<le> i" "i < 16"
  shows "StringArray_at probeNames i = letter i"
proof -
  have "map (StringArray_at probeNames) [0..15] = map letter [0..15]"
    by (simp add: upto.simps StringArray_at_def probeNames_def letter_def)
  then have "\<forall>j \<in> set [0..15]. StringArray_at probeNames j = letter j"
    by (simp only: map_eq_conv)
  with assms show ?thesis
    by simp
qed

lemma probeNames_beyond: "StringArray_at probeNames (16 + int k) = []"
  by (simp add: StringArray_at_def probeNames_def)

lemma map_const_replicate:
  "(\<And>x. x \<in> set xs \<Longrightarrow> f x = c) \<Longrightarrow> map f xs = replicate (length xs) c"
  by (induction xs) simp_all

lemma length_concat_pairs: "length (concat (map (\<lambda>i. [f i, g i]) xs)) = 2 * length xs"
  by (induction xs) simp_all

lemma length_topologyView: "length (topologyView st) = length (dataStreams st)"
  by (simp add: topologyView_def)

lemma map_fst_topologyView: "map fst (topologyView st) = map ds_name (dataStreams st)"
proof -
  have "map ds_name (dataStreams st) =
      map ds_name (map (\<lambda>k. dataStreams st ! k) [0..<length (dataStreams st)])"
    by (simp only: map_nth)
  then show ?thesis
    by (simp add: topologyView_def streamView_def o_def)
qed

lemma updateSettings_names:
  "map ds_name (dataStreams (updateSettings settings st)) =
     concat (map (\<lambda>i. [''Probe-'' @ StringArray_at probeNames i @ ''-AP'',
                       ''Probe-'' @ StringArray_at probeNames i @ ''-LFP''])
       [0..numProbes settings - 1]) @
     map (\<lambda>j. ''Dev'' @ String_of_int j) [0..numNIDAQ settings - 1]"
proof -
  have "map ds_name (dataStreams (updateSettings settings st)) =
      map fst (topologyView (updateSettings settings st))"
    by (simp only: map_fst_topologyView)
  also have "\<dots> = concat (map (\<lambda>i. [''Probe-'' @ StringArray_at probeNames i @ ''-AP'',
                       ''Probe-'' @ StringArray_at probeNames i @ ''-LFP''])
       [0..numProbes settings - 1]) @
     map (\<lambda>j. ''Dev'' @ String_of_int j) [0..numNIDAQ settings - 1]"
    by (simp add: updateSettings_view map_concat o_def apRow_def lfpRow_def nidaqRow_def)
  finally show ?thesis .
qed

lemma updateSettings_count:
  "length (dataStreams (updateSettings settings st)) =
     2 * nat (numProbes settings) + nat (numNIDAQ settings)"
proof -
  have "length (dataStreams (updateSettings settings st)) =
      length (topologyView (updateSettings settings st))"
    by (simp only: length_topologyView)
  also have "\<dots> = 2 * nat (numProbes settings) + nat (numNIDAQ settings)"
    by (simp only: updateSettings_view length_append length_concat_pairs length_map length_upto)
  finally show ?thesis .
qed

lemma updateSettings_syncs:
  "map (\<lambda>k. syncTypesOf k (updateSettings settings st))
     [0..<length (dataStreams (updateSettings settings st))] =
   replicate (length (dataStreams (updateSettings settings st))) [TTL]"
proof -
  let ?r = "updateSettings settings st"
  have "map (\<lambda>k. syncTypesOf k ?r) [0..<length (dataStreams ?r)] =
      map (\<lambda>row. snd (snd (snd row))) (topologyView ?r)"
    by (simp add: topologyView_def streamView_def)
  also have "\<dots> = replicate (length (topologyView ?r)) [TTL]"
    by (rule map_const_replicate)
      (auto simp: updateSettings_view apRow_def lfpRow_def nidaqRow_def)
  finally show ?thesis
    by (simp only: length_topologyView)
qed

subsection \<open>Sources and buffers go in pairs\<close>

lemma paired_length: "paired cap st \<Longrightarrow> length (sources st) = length (sourceBuffers st)"
  by (auto simp: paired_def dest: map_eq_imp_length_eq)

lemma emitBlock_paired:
  assumes "paired cap st" "bufSize buf = cap" "numChans buf = numChannels src"
  shows "paired cap (emitBlock ds src buf mk n ev st)"
  using assms by (simp add: paired_def emitBlock_def replicate_append_same)

lemma emitBlock_streams:
  "length (sources st) = length (dataStreams st) \<Longrightarrow>
   length (sources (emitBlock ds src buf mk n ev st)) =
   length (dataStreams (emitBlock ds src buf mk n ev st))"
  by (simp add: emitBlock_def)

lemma probeBody_paired:
  "paired 48000 st \<Longrightarrow> paired 48000 (probeBody settings i st)"
  by (simp add: probeBody_blocks emitBlock_paired DataBuffer_new_def SimulatedSource_def)

lemma nidaqBody_paired:
  "paired 48000 st \<Longrightarrow> paired 48000 (nidaqBody settings i st)"
  by (simp add: nidaqBody_blocks emitBlock_paired DataBuffer_new_def SimulatedSource_def)

lemma probeBody_streams:
  "length (sources st) = length (dataStreams st) \<Longrightarrow>
   length (sources (probeBody settings i st)) = length (dataStreams (probeBody settings i st))"
  by (simp add: probeBody_blocks emitBlock_streams)

lemma nidaqBody_streams:
  "length (sources st) = length (dataStreams st) \<Longrightarrow>
   length (sources (nidaqBody settings i st)) = length (dataStreams (nidaqBody settings i st))"
  by (simp add: nidaqBody_blocks emitBlock_streams)

lemma probeLoop_paired:
  "paired 48000 st \<Longrightarrow> length (sources st) = length (dataStreams st) \<Longrightarrow>
   paired 48000 (probeLoop settings i st) \<and>
   length (sources (probeLoop settings i st)) = length (dataStreams (probeLoop settings i st))"
proof (induction settings i st rule: probeLoop.induct)
  case (1 settings i st)
  then show ?case
    by (simp add: probeLoop.simps [of settings i st] probeBody_paired probeBody_streams)
qed

lemma nidaqLoop_paired:
  "paired 48000 st \<Longrightarrow> length (sources st) = length (dataStreams st) \<Longrightarrow>
   paired 48000 (nidaqLoop settings i st) \<and>
   length (sources (nidaqLoop settings i st)) = length (dataStreams (nidaqLoop settings i st))"
proof (induction settings i st rule: nidaqLoop.induct)
  case (1 settings i st)
  then show ?case
    by (simp add: nidaqLoop.simps [of settings i st] nidaqBody_paired nidaqBody_streams)
qed

lemma updateSettings_paired:
  "paired 48000 (updateSettings settings st)"
  "length (sources (updateSettings settings st)) = length (dataStreams (updateSettings settings st))"
proof -
  have a: "paired 48000 SourceSimThread_new"
    by (simp add: paired_def SourceSimThread_new_def)
  have b: "length (sources SourceSimThread_new) = length (dataStreams SourceSimThread_new)"
    by (simp add: SourceSimThread_new_def)
  from probeLoop_paired [OF a b, of settings 0]
  have "paired 48000 (nidaqLoop settings 0 (probeLoop settings 0 SourceSimThread_new)) \<and>
     length (sources (nidaqLoop settings 0 (probeLoop settings 0 SourceSimThread_new))) =
     length (dataStreams (nidaqLoop settings 0 (probeLoop settings 0 SourceSimThread_new)))"
    by (intro nidaqLoop_paired) simp_all
  then show "paired 48000 (updateSettings settings st)"
    "length (sources (updateSettings settings st)) = length (dataStreams (updateSettings settings st))"
    by (simp_all add: updateSettings_def clearAll_new)
qed

lemma genProbeBody_members [simp]:
  "numProbes_t (genProbeBody K th) = numProbes_t th"
  "numChannelsPerProbe (genProbeBody K th) = numChannelsPerProbe th"
  "numNIDevices (genProbeBody K th) = numNIDevices th"
  "numChannelsPerNIDAQDevice (genProbeBody K th) = numChannelsPerNIDAQDevice th"
  "self (genProbeBody K th) = self th"
  by (simp_all add: genProbeBody_def Let_def bindLast_def)

lemma genNidaqBody_members [simp]:
  "numProbes_t (genNidaqBody K th) = numProbes_t th"
  "numChannelsPerProbe (genNidaqBody K th) = numChannelsPerProbe th"
  "numNIDevices (genNidaqBody K th) = numNIDevices th"
  "numChannelsPerNIDAQDevice (genNidaqBody K th) = numChannelsPerNIDAQDevice th"
  "self (genNidaqBody K th) = self th"
  by (simp_all add: genNidaqBody_def Let_def bindLast_def)

lemma genProbeBody_closed:
  "genProbeBody K th =
     th\<lparr>sources := sources th @
          [(new_NPX_AP_BAND K (numChannelsPerProbe th))\<lparr>buffer := Some (length (sourceBuffers th))\<rparr>,
           (new_NPX_LFP_BAND K (numChannelsPerProbe th))\<lparr>buffer := Some (Suc (length (sourceBuffers th)))\<rparr>],
        sourceBuffers := sourceBuffers th @
          [DataBuffer_new (numChannels (new_NPX_AP_BAND K (numChannelsPerProbe th))) 1000,
           DataBuffer_new (numChannels (new_NPX_LFP_BAND K (numChannelsPerProbe th))) 1000]\<rparr>"
  by (simp add: genProbeBody_def Let_def bindLast_def getLast_def)

lemma genNidaqBody_closed:
  "genNidaqBody K th =
     th\<lparr>sources := sources th @
          [(new_NIDAQ K (numChannelsPerNIDAQDevice th))\<lparr>buffer := Some (length (sourceBuffers th))\<rparr>],
        sourceBuffers := sourceBuffers th @
          [DataBuffer_new (numChannels (new_NIDAQ K (numChannelsPerNIDAQDevice th))) 1000]\<rparr>"
  by (simp add: genNidaqBody_def Let_def bindLast_def getLast_def)

lemma genProbeBody_paired: "paired 1000 th \<Longrightarrow> paired 1000 (genProbeBody K th)"
  by (simp add: genProbeBody_closed paired_def DataBuffer_new_def replicate_append_same
      replicate_app_Cons_same)

lemma genNidaqBody_paired: "paired 1000 th \<Longrightarrow> paired 1000 (genNidaqBody K th)"
  by (simp add: genNidaqBody_closed paired_def DataBuffer_new_def replicate_append_same)

lemma genProbeLoop_paired: "paired 1000 th \<Longrightarrow> paired 1000 (genProbeLoop K i th)"
proof (induction K i th rule: genProbeLoop.induct)
  case (1 K i th)
  then show ?case
    by (simp add: genProbeLoop.simps [of K i th] genProbeBody_paired)
qed

lemma genNidaqLoop_paired: "paired 1000 th \<Longrightarrow> paired 1000 (genNidaqLoop K i th)"
proof (induction K i th rule: genNidaqLoop.induct)
  case (1 K i th)
  then show ?case
    by (simp add: genNidaqLoop.simps [of K i th] genNidaqBody_paired)
qed

lemma generateBuffers_paired: "paired 1000 (generateBuffers K th)"
  unfolding generateBuffers_def
  by (intro genNidaqLoop_paired genProbeLoop_paired) (simp add: paired_def)

lemma genProbeLoop_members:
  "numProbes_t (genProbeLoop K i th) = numProbes_t th \<and>
   numChannelsPerProbe (genProbeLoop K i th) = numChannelsPerProbe th \<and>
   numNIDevices (genProbeLoop K i th) = numNIDevices th \<and>
   numChannelsPerNIDAQDevice (genProbeLoop K i th) = numChannelsPerNIDAQDevice th \<and>
   self (genProbeLoop K i th) = self th"
proof (induction K i th rule: genProbeLoop.induct)
  case (1 K i th)
  then show ?case
    by (simp add: genProbeLoop.simps [of K i th])
qed

lemma genNidaqLoop_members:
  "numProbes_t (genNidaqLoop K i th) = numProbes_t th \<and>
   numChannelsPerProbe (genNidaqLoop K i th) = numChannelsPerProbe th \<and>
   numNIDevices (genNidaqLoop K i th) = numNIDevices th \<and>
   numChannelsPerNIDAQDevice (genNidaqLoop K i th) = numChannelsPerNIDAQDevice th \<and>
   self (genNidaqLoop K i th) = self th"
proof (induction K i th rule: genNidaqLoop.induct)
  case (1 K i th)
  then show ?case
    by (simp add: genNidaqLoop.simps [of K i th])
qed

lemma generateBuffers_members:
  "numProbes_t (generateBuffers K th) = numProbes_t th"
  "numChannelsPerProbe (generateBuffers K th) = numChannelsPerProbe th"
  "numNIDevices (generateBuffers K th) = numNIDevices th"
  "numChannelsPerNIDAQDevice (generateBuffers K th) = numChannelsPerNIDAQDevice th"
  "self (generateBuffers K th) = self th"
  by (simp_all add: generateBuffers_def genNidaqLoop_members genProbeLoop_members)

lemma genProbeLoop_sources:
  "map unbound (sources (genProbeLoop K i th)) =
     map unbound (sources th) @
     concat (replicate (nat (numProbes_t th - i))
       [unbound (new_NPX_AP_BAND K (numChannelsPerProbe th)),
        unbound (new_NPX_LFP_BAND K (numChannelsPerProbe th))])"
proof (induction K i th rule: genProbeLoop.induct)
  case (1 K i th)
  show ?case
  proof (cases "i < numProbes_t th")
    case True
    then have "nat (numProbes_t th - i) = Suc (nat (numProbes_t th - (i + 1)))"
      by simp
    with True 1 show ?thesis
      by (simp add: genProbeLoop.simps [of K i th])
        (simp add: genProbeBody_closed unbound_def)
  next
    case False
    then show ?thesis
      by (simp add: genProbeLoop.simps [of K i th])
  qed
qed

lemma genNidaqLoop_sources:
  "map unbound (sources (genNidaqLoop K i th)) =
     map unbound (sources th) @
     replicate (nat (numNIDevices th - i)) (unbound (new_NIDAQ K (numChannelsPerNIDAQDevice th)))"
proof (induction K i th rule: genNidaqLoop.induct)
  case (1 K i th)
  show ?case
  proof (cases "i < numNIDevices th")
    case True
    then have "nat (numNIDevices th - i) = Suc (nat (numNIDevices th - (i + 1)))"
      by simp
    with True 1 show ?thesis
      by (simp add: genNidaqLoop.simps [of K i th])
        (simp add: genNidaqBody_closed unbound_def)
  next
    case False
    then show ?thesis
      by (simp add: genNidaqLoop.simps [of K i th])
  qed
qed

lemma generateBuffers_sources:
  "map unbound (sources (generateBuffers K th)) =
     concat (replicate (nat (numProbes_t th))
       [unbound (new_NPX_AP_BAND K (numChannelsPerProbe th)),
        unbound (new_NPX_LFP_BAND K (numChannelsPerProbe th))]) @
     replicate (nat (numNIDevices th)) (unbound (new_NIDAQ K (numChannelsPerNIDAQDevice th)))"
  by (simp add: generateBuffers_def genNidaqLoop_sources genProbeLoop_sources
      genProbeLoop_members)

subsection \<open>Starting, stopping and the sync clock\<close>

lemma startThreads_closed:
  "startThreads launch i ss =
     (map StartThread [i..<i + length ss],
      map2 (\<lambda>k s. startThread (launch k) s) [i..<i + length ss] ss)"
proof (induction ss arbitrary: i)
  case Nil
  show ?case by simp
next
  case (Cons s ss)
  have "[i..<i + length (s # ss)] = i # [Suc i..<Suc i + length ss]"
    using upt_conv_Cons [of i "i + Suc (length ss)"] by simp
  then show ?case
    using Cons [of "Suc i"] by simp
qed

lemma signalThreads_closed:
  "signalThreads i ss =
     (map SignalThreadShouldExit [i..<i + length ss], map signalThreadShouldExit ss)"
proof (induction ss arbitrary: i)
  case Nil
  show ?case by simp
next
  case (Cons s ss)
  have "[i..<i + length (s # ss)] = i # [Suc i..<Suc i + length ss]"
    using upt_conv_Cons [of i "i + Suc (length ss)"] by simp
  then show ?case
    using Cons [of "Suc i"] by simp
qed

lemma clearBuffers_range:
  "map buffer ss = map Some [i..<i + length ss] \<Longrightarrow> i + length ss \<le> length bufs \<Longrightarrow>
   clearBuffers ss bufs =
     Inr (map BufferClear [i..<i + length ss],
          map (\<lambda>k. if i \<le> k \<and> k < i + length ss then clear (bufs ! k) else bufs ! k)
            [0..<length bufs])"
proof (induction ss arbitrary: i bufs)
  case Nil
  have "map (\<lambda>k. if i \<le> k \<and> k < i then clear (bufs ! k) else bufs ! k) [0..<length bufs] =
      map (\<lambda>k. bufs ! k) [0..<length bufs]"
    by auto
  then show ?case by (simp add: map_nth)
next
  case (Cons s ss)
  have up: "[i..<i + length (s # ss)] = i # [Suc i..<Suc i + length ss]"
    using upt_conv_Cons [of i "i + Suc (length ss)"] by simp
  from Cons.prems(1) have "map buffer (s # ss) = map Some (i # [Suc i..<Suc i + length ss])"
    by (simp only: up)
  then have s: "buffer s = Some i"
    and ss: "map buffer ss = map Some [Suc i..<Suc i + length ss]"
    by simp_all
  let ?bufs = "bufs[i := clear (bufs ! i)]"
  from Cons.prems have len: "Suc i + length ss \<le> length ?bufs" and i: "i < length bufs"
    by simp_all
  have "map (\<lambda>k. if Suc i \<le> k \<and> k < Suc i + length ss then clear (?bufs ! k) else ?bufs ! k)
          [0..<length ?bufs] =
        map (\<lambda>k. if i \<le> k \<and> k < i + length (s # ss) then clear (bufs ! k) else bufs ! k)
          [0..<length bufs]"
  proof -
    have "(if Suc i \<le> k \<and> k < Suc i + length ss then clear (?bufs ! k) else ?bufs ! k) =
        (if i \<le> k \<and> k < i + length (s # ss) then clear (bufs ! k) else bufs ! k)"
      if "k < length bufs" for k
      using that by (cases "k = i") (auto simp: nth_list_update)
    then show ?thesis by simp
  qed
  with Cons.IH [OF ss len] s i up show ?case
    by simp
qed

lemma clearBuffers_paired:
  assumes "paired cap st"
  shows "clearBuffers (sources st) (sourceBuffers st) =
           Inr (map BufferClear [0..<length (sources st)], map clear (sourceBuffers st))"
proof -
  from assms have len: "length (sources st) = length (sourceBuffers st)"
    by (rule paired_length)
  with assms have "map buffer (sources st) = map Some [0..<0 + length (sources st)]"
    by (simp add: paired_def)
  from clearBuffers_range [OF this, of "sourceBuffers st"] len
  have "clearBuffers (sources st) (sourceBuffers st) =
      Inr (map BufferClear [0..<length (sources st)],
           map (\<lambda>k. clear (sourceBuffers st ! k)) [0..<length (sourceBuffers st)])"
    by simp
  also have "map (\<lambda>k. clear (sourceBuffers st ! k)) [0..<length (sourceBuffers st)] =
      map clear (sourceBuffers st)"
    by (simp add: map_nth flip: map_map [unfolded o_def])
  finally show ?thesis .
qed

lemma startAcquisition_paired:
  assumes "paired cap st"
  shows "startAcquisition launch st =
     Inr (True,
          map BufferClear [0..<length (sources st)] @ map StartThread [0..<length (sources st)],
          st\<lparr>sources := map2 (\<lambda>k s. startThread (launch k) s) [0..<length (sources st)] (sources st),
             sourceBuffers := map clear (sourceBuffers st)\<rparr>)"
  by (simp add: startAcquisition_def clearBuffers_paired [OF assms] startThreads_closed)

lemma startAcquisition_built:
  "startAcquisition launch (updateSettings settings st) =
     Inr (True,
          map BufferClear [0..<length (sources (updateSettings settings st))] @
          map StartThread [0..<length (sources (updateSettings settings st))],
          (updateSettings settings st)
            \<lparr>sources := map2 (\<lambda>k s. startThread (launch k) s)
                 [0..<length (sources (updateSettings settings st))]
                 (sources (updateSettings settings st)),
             sourceBuffers := map clear (sourceBuffers (updateSettings settings st))\<rparr>)"
  by (rule startAcquisition_paired [OF updateSettings_paired(1)])

lemma startAcquisition_t_closed:
  assumes "sourceBuffers th \<noteq> []"
  shows "startAcquisition_t launch own th =
     Inr (True,
          BufferClear (length (sourceBuffers th) - 1) #
            map StartThread [0..<length (sources th)] @ [StartOwnThread],
          th\<lparr>sourceBuffers := butlast (sourceBuffers th) @ [clear (last (sourceBuffers th))],
             sources := map2 (\<lambda>k s. startThread (launch k) s) [0..<length (sources th)] (sources th),
             self := startThread own (self th)\<rparr>)"
proof -
  from assms obtain bs b where bufs: "sourceBuffers th = bs @ [b]"
    by (metis append_butlast_last_id)
  then show ?thesis
    by (simp add: startAcquisition_t_def getLast_def startThreads_closed)
qed

lemma startAcquisition_t_empty:
  "sourceBuffers th = [] \<Longrightarrow> startAcquisition_t launch own th = Inl NullPointer"
  by (simp add: startAcquisition_t_def getLast_def)


lemma one_probe_thread:
  "updateNumProbes spec_classes 1 (SourceThread_new spec_classes) =
     \<lparr>sources =
        [(SimulatedSource ''AP'' 384 30000 AP_BAND)\<lparr>buffer := Some 0\<rparr>,
         (SimulatedSource ''LFP'' 384 2500 LFP_BAND)\<lparr>buffer := Some 1\<rparr>,
         (SimulatedSource ''NIDAQ'' 8 30000 NIDAQ)\<lparr>buffer := Some 2\<rparr>],
      sourceBuffers = [DataBuffer_new 384 1000, DataBuffer_new 384 1000, DataBuffer_new 8 1000],
      self = \<lparr>threadRunning = False, shouldExit = False\<rparr>,
      numProbes_t = 1, numChannelsPerProbe = 384, numNIDevices = 1,
      numChannelsPerNIDAQDevice = 8\<rparr>"
  by (simp add: updateNumProbes_def SourceThread_new_def generateBuffers_def
      genProbeLoop.simps genNidaqLoop.simps genProbeBody_closed genNidaqBody_closed
      spec_classes_def SimulatedSource_def)

lemma one_probe_built:
  "updateSettings one_probe SourceSimThread_new =
     \<lparr>sources =
        [(SimulatedSource ''Probe-A-AP'' 1 30000 AP_BAND)\<lparr>buffer := Some 0\<rparr>,
         (SimulatedSource ''Probe-A-LFP'' 1 2500 LFP_BAND)\<lparr>buffer := Some 1\<rparr>],
      sourceBuffers = [DataBuffer_new 1 48000, DataBuffer_new 1 48000],
      dataStreams = [apSettings 0, lfpSettings 0],
      eventChannels = [apSyncSettings 0 (Some 0), lfpSyncSettings 0 (Some 1)],
      continuousChannels = [apChannelSettings 0 (Some 0), lfpChannelSettings 0 (Some 1)],
      spikeChannels = [], devices = [], configurationObjects = []\<rparr>"
  by (simp add: updateSettings_def clearAll_new SourceSimThread_new_def one_probe_def
      probeLoop.simps nidaqLoop.simps probeBody_blocks emitBlock_def
      apSettings_def lfpSettings_def StringArray_at_def probeNames_def)

subsection \<open>No call switches a sync clock of a SourceSimThread on\<close>













lemma legacy_clock_example:
  "map_sum id (\<lambda>th. map clkFreq (sources (updateClkFreq_t 100 1 th)))
     (updateClkEnable_t 0 True (updateNumProbes spec_classes 1 (SourceThread_new spec_classes))) =
   Inr [100, 0, 0]"
  by (simp add: one_probe_thread updateClkEnable_t_def updateClkFreq_t_def
      source_updateClk_def source_updateClkFreq_def SimulatedSource_def)

section \<open>The claims\<close>

text \<open>
  Claim C1. For every configuration with at most 16 probes (the alphabet A to P of the
  specification has no letter for a seventeenth), \<open>updateSettings\<close> emits, for each probe
  index \<open>i\<close> from 0 to \<open>numProbes - 1\<close> in order, first the stream
  \<open>Probe-<letter i>-AP\<close> at 30000 Hz with \<open>channelsPerProbe\<close> electrode channels and one
  TTL sync line, then the stream \<open>Probe-<letter i>-LFP\<close> at 2500 Hz with as many
  electrode channels and one TTL sync line, and afterwards, for each device index \<open>j\<close>
  from 0 to \<open>numNIDAQ - 1\<close> in order, the stream \<open>Dev<j>\<close> at 30000 Hz with
  \<open>channelsPerNIDAQ\<close> analog-input channels and one TTL sync line. Every channel and
  every sync line belongs to one of these streams. \<open>generateBuffers\<close>
  creates its sources in the same order: an AP and an LFP source for each probe, then
  one source for each device.
\<close>

theorem topology_builder_order:
  assumes "numProbes settings \<le> 16"
  shows "topologyView (updateSettings settings st) =
     concat (map (\<lambda>i.
         [(''Probe-'' @ letter i @ ''-AP'', 30000,
           replicate (nat (channelsPerProbe settings)) ELECTRODE, [TTL]),
          (''Probe-'' @ letter i @ ''-LFP'', 2500,
           replicate (nat (channelsPerProbe settings)) ELECTRODE, [TTL])])
       [0..numProbes settings - 1]) @
     map (\<lambda>j. (''Dev'' @ String_of_int j, 30000,
           replicate (nat (channelsPerNIDAQ settings)) ADC, [TTL]))
       [0..numNIDAQ settings - 1] \<and>
   linked (updateSettings settings st) \<and>
   map unbound (sources (generateBuffers K th)) =
     concat (replicate (nat (numProbes_t th))
       [unbound (new_NPX_AP_BAND K (numChannelsPerProbe th)),
        unbound (new_NPX_LFP_BAND K (numChannelsPerProbe th))]) @
     replicate (nat (numNIDevices th)) (unbound (new_NIDAQ K (numChannelsPerNIDAQDevice th)))"
proof -
  have "StringArray_at probeNames i = letter i" if "i \<in> set [0..numProbes settings - 1]" for i
    using that assms by (intro letter_probeNames) auto
  then have "map (\<lambda>i. [apRow settings i, lfpRow settings i]) [0..numProbes settings - 1] =
      map (\<lambda>i.
         [(''Probe-'' @ letter i @ ''-AP'', 30000,
           replicate (nat (channelsPerProbe settings)) ELECTRODE, [TTL]),
          (''Probe-'' @ letter i @ ''-LFP'', 2500,
           replicate (nat (channelsPerProbe settings)) ELECTRODE, [TTL])])
       [0..numProbes settings - 1]"
    by (intro map_cong refl) (simp add: apRow_def lfpRow_def)
  moreover have "map (nidaqRow settings) [0..numNIDAQ settings - 1] =
      map (\<lambda>j. (''Dev'' @ String_of_int j, 30000,
           replicate (nat (channelsPerNIDAQ settings)) ADC, [TTL]))
       [0..numNIDAQ settings - 1]"
    by (simp add: nidaqRow_def)
  ultimately show ?thesis
    by (simp only: updateSettings_view generateBuffers_sources updateSettings_linked simp_thms)
qed

text \<open>
  Claim C1 at the configuration of two probes with three channels each and one device
  with eight channels: the streams \<open>Probe-A-AP\<close>, \<open>Probe-A-LFP\<close>, \<open>Probe-B-AP\<close>,
  \<open>Probe-B-LFP\<close> and \<open>Dev0\<close>.
\<close>

theorem topology_builder_order_witness:
  "(2::int) \<le> 16 \<and>
   topologyView
     (updateSettings \<lparr>numProbes = 2, channelsPerProbe = 3, numNIDAQ = 1, channelsPerNIDAQ = 8\<rparr>
        SourceSimThread_new) =
     [(''Probe-A-AP'', 30000, [ELECTRODE, ELECTRODE, ELECTRODE], [TTL]),
      (''Probe-A-LFP'', 2500, [ELECTRODE, ELECTRODE, ELECTRODE], [TTL]),
      (''Probe-B-AP'', 30000, [ELECTRODE, ELECTRODE, ELECTRODE], [TTL]),
      (''Probe-B-LFP'', 2500, [ELECTRODE, ELECTRODE, ELECTRODE], [TTL]),
      (''Dev0'', 30000, [ADC, ADC, ADC, ADC, ADC, ADC, ADC, ADC], [TTL])]"
  using topology_builder_order
    [of "\<lparr>numProbes = 2, channelsPerProbe = 3, numNIDAQ = 1, channelsPerNIDAQ = 8\<rparr>"
        SourceSimThread_new]
  by (simp add: upto.simps letter_def String_of_int_def digits.simps eval_nat_numeral)

text \<open>
  Claim C2 says that a configuration with more than 16 probes is rejected before
  anything is constructed. \<open>updateSettings\<close> has no such check: with 17 probes it
  constructs 34 streams, 34 sources and 34 buffers, and the streams of the seventeenth
  probe are named with an empty letter.
\<close>

theorem seventeen_probes_are_built:
  "length (dataStreams (updateSettings seventeen_probes SourceSimThread_new)) = 34 \<and>
   length (sources (updateSettings seventeen_probes SourceSimThread_new)) = 34 \<and>
   length (sourceBuffers (updateSettings seventeen_probes SourceSimThread_new)) = 34 \<and>
   drop 32 (topologyView (updateSettings seventeen_probes SourceSimThread_new)) =
     [(''Probe--AP'', 30000, [ELECTRODE], [TTL]), (''Probe--LFP'', 2500, [ELECTRODE], [TTL])]"
proof -
  let ?r = "updateSettings seventeen_probes SourceSimThread_new"
  have n: "length (dataStreams ?r) = 34"
    by (simp add: updateSettings_count seventeen_probes_def)
  have s: "length (sources ?r) = 34"
    using updateSettings_paired(2) [of seventeen_probes SourceSimThread_new] n by simp
  have b: "length (sourceBuffers ?r) = 34"
    using paired_length [OF updateSettings_paired(1), of seventeen_probes SourceSimThread_new] s
    by simp
  have v: "drop 32 (topologyView ?r) =
     [(''Probe--AP'', 30000, [ELECTRODE], [TTL]), (''Probe--LFP'', 2500, [ELECTRODE], [TTL])]"
    by (simp add: updateSettings_view seventeen_probes_def upto.simps apRow_def lfpRow_def
        StringArray_at_def probeNames_def)
  from n s b v show ?thesis by simp
qed

text \<open>
  Claim C2, amended. \<open>updateSettings\<close> rejects no configuration: for every configuration,
  with more than 16 probes as well, it constructs \<open>2 * numProbes + numNIDAQ\<close> streams,
  sources and buffers (a negative count counts as zero), and the name of a probe stream
  takes the letter that \<open>probeNames[i]\<close> delivers, which is empty from index 16 on.
\<close>

theorem no_configuration_is_rejected:
  "length (dataStreams (updateSettings settings st)) =
     2 * nat (numProbes settings) + nat (numNIDAQ settings) \<and>
   length (sources (updateSettings settings st)) =
     2 * nat (numProbes settings) + nat (numNIDAQ settings) \<and>
   length (sourceBuffers (updateSettings settings st)) =
     2 * nat (numProbes settings) + nat (numNIDAQ settings) \<and>
   map ds_name (dataStreams (updateSettings settings st)) =
     concat (map (\<lambda>i. [''Probe-'' @ StringArray_at probeNames i @ ''-AP'',
                       ''Probe-'' @ StringArray_at probeNames i @ ''-LFP''])
       [0..numProbes settings - 1]) @
     map (\<lambda>j. ''Dev'' @ String_of_int j) [0..numNIDAQ settings - 1] \<and>
   StringArray_at probeNames (16 + int k) = []"
proof -
  let ?r = "updateSettings settings st"
  have s: "length (sources ?r) = length (dataStreams ?r)"
    by (rule updateSettings_paired(2))
  have b: "length (sourceBuffers ?r) = length (sources ?r)"
    using paired_length [OF updateSettings_paired(1), of settings st] by simp
  show ?thesis
    by (simp only: b s updateSettings_count updateSettings_names probeNames_beyond simp_thms)
qed

text \<open>
  Claim C3 says that start clears every buffer bound to a source before it starts the
  generator threads. \<open>SourceSimThread::startAcquisition\<close> does so (see
  \<open>startAcquisition_built\<close>); \<open>SourceThread::startAcquisition\<close> clears the last buffer
  only. With one probe and one device, and five unread samples in each of the three
  buffers, the only buffer cleared is the third one, and the first two still hold their
  five samples when the threads start.
\<close>

theorem legacy_start_clears_last_buffer_only:
  "samples_stored (written 5 (updateNumProbes spec_classes 1 (SourceThread_new spec_classes))) =
     [5, 5, 5] \<and>
   calls_made (startAcquisition_t launch_succeeds True
       (written 5 (updateNumProbes spec_classes 1 (SourceThread_new spec_classes)))) =
     Some [BufferClear 2, StartThread 0, StartThread 1, StartThread 2, StartOwnThread] \<and>
   map_option samples_stored (state_after (startAcquisition_t launch_succeeds True
       (written 5 (updateNumProbes spec_classes 1 (SourceThread_new spec_classes))))) =
     Some [5, 5, 0]"
  by (simp add: one_probe_thread written_def samples_stored_def startAcquisition_t_def
      getLast_def calls_made_def state_after_def clear_def DataBuffer_new_def)

text \<open>
  Claim C4. A rebuild clears every collection before it adds anything, so its result
  holds nothing of the generation before: \<open>updateSettings\<close> delivers from any state what
  it delivers from the state with all collections empty, and \<open>generateBuffers\<close> delivers
  the same whatever sources and buffers there were.
\<close>

theorem rebuild_starts_from_empty:
  "updateSettings settings st = updateSettings settings SourceSimThread_new \<and>
   generateBuffers K (th\<lparr>sources := old_sources, sourceBuffers := old_buffers\<rparr>) =
     generateBuffers K (th\<lparr>sources := [], sourceBuffers := []\<rparr>)"
  by (simp add: updateSettings_def clearAll_new generateBuffers_def)

text \<open>
  Claim C5 says that start returns false when a generator thread fails to launch. On
  the topology of one probe, with every launch failing, \<open>startAcquisition\<close> returns true
  and no generator thread runs.
\<close>

theorem start_returns_true_when_no_thread_launches:
  "returned (startAcquisition launch_fails (updateSettings one_probe SourceSimThread_new)) =
     Some True \<and>
   map_option threads_running
     (state_after (startAcquisition launch_fails (updateSettings one_probe SourceSimThread_new))) =
     Some [False, False]"
  by (simp add: one_probe_built startAcquisition_def returned_def state_after_def
      threads_running_def launch_fails_def startThread_def SimulatedSource_def)

text \<open>
  Claim C5, amended. Start returns true whether or not the generator threads launch: on
  every built topology \<open>SourceSimThread::startAcquisition\<close> returns true, and
  \<open>SourceThread::startAcquisition\<close> returns true whenever there is a buffer to clear
  (with no buffer it follows a null pointer). Nothing is rolled back: afterwards a
  generator runs exactly if it ran before or its launch succeeded.
\<close>

theorem start_always_returns_true:
  "returned (startAcquisition launch (updateSettings settings st)) = Some True \<and>
   map_option threads_running
     (state_after (startAcquisition launch (updateSettings settings st))) =
     Some (map2 (\<lambda>k s. threadRunning s \<or> launch k)
       [0..<length (sources (updateSettings settings st))]
       (sources (updateSettings settings st))) \<and>
   returned (startAcquisition_t launch own th) =
     (if sourceBuffers th = [] then None else Some True) \<and>
   map_option threads_running (state_after (startAcquisition_t launch own th)) =
     (if sourceBuffers th = [] then None
      else Some (map2 (\<lambda>k s. threadRunning s \<or> launch k) [0..<length (sources th)] (sources th)))"
proof -
  have sim: "returned (startAcquisition launch (updateSettings settings st)) = Some True"
    "map_option threads_running
     (state_after (startAcquisition launch (updateSettings settings st))) =
     Some (map2 (\<lambda>k s. threadRunning s \<or> launch k)
       [0..<length (sources (updateSettings settings st))]
       (sources (updateSettings settings st)))"
    by (auto simp: startAcquisition_built returned_def state_after_def threads_running_def
        startThread_def)
  have legacy: "returned (startAcquisition_t launch own th) =
     (if sourceBuffers th = [] then None else Some True)"
    "map_option threads_running (state_after (startAcquisition_t launch own th)) =
     (if sourceBuffers th = [] then None
      else Some (map2 (\<lambda>k s. threadRunning s \<or> launch k) [0..<length (sources th)] (sources th)))"
    by (auto simp: startAcquisition_t_closed startAcquisition_t_empty returned_def
        state_after_def threads_running_def startThread_def)
  from sim legacy show ?thesis by (simp only: simp_thms)
qed


text \<open>
  Claim C7 says that one TTL output is reported for every stream, those of the devices
  included. For the thread as constructed (six probes, one device with eight channels),
  \<open>getNumTTLOutputs\<close> reports eight TTL outputs for subprocessor 12, the device.
\<close>

theorem legacy_device_reports_eight_TTL_outputs:
  "getNumTTLOutputs (SourceThread_new spec_classes) 12 = 8"
  by (simp add: getNumTTLOutputs_def SourceThread_new_def generateBuffers_members)

text \<open>
  Claim C7, amended. In every topology built by \<open>updateSettings\<close>, exactly one event
  channel points to the stream of each source, and it is a TTL channel.
  \<open>getNumTTLOutputs\<close> reports 1 for the subprocessors of the probes (index below
  \<open>2 * numProbes\<close>) and \<open>numChannelsPerNIDAQDevice\<close> for those of the devices.
\<close>

theorem sync_lines_per_stream:
  "map (\<lambda>k. syncTypesOf k (updateSettings settings st))
     [0..<length (sources (updateSettings settings st))] =
     replicate (length (sources (updateSettings settings st))) [TTL] \<and>
   getNumTTLOutputs th subProcessorIdx =
     (if subProcessorIdx < 2 * numProbes_t th then 1 else numChannelsPerNIDAQDevice th)"
  using updateSettings_syncs [of settings st]
  by (simp add: updateSettings_paired(2) getNumTTLOutputs_def)

text \<open>
  Claim C8. Stop calls \<open>signalThreadShouldExit\<close> on every source, in order, and makes
  no other call on them: afterwards every source has its exit flag set, and which threads
  run is what it was, since nothing waits for a thread to end. \<open>SourceThread\<close> also
  signals its own thread when that runs. Both return true.
\<close>

theorem stop_signals_every_generator:
  "stopAcquisition st =
     (True, map SignalThreadShouldExit [0..<length (sources st)],
      st\<lparr>sources := map signalThreadShouldExit (sources st)\<rparr>) \<and>
   map shouldExit (sources (snd (snd (stopAcquisition st)))) =
     replicate (length (sources st)) True \<and>
   threads_running (snd (snd (stopAcquisition st))) = threads_running st \<and>
   stopAcquisition_t th =
     (True,
      map SignalThreadShouldExit [0..<length (sources th)] @
        (if threadRunning (self th) then [SignalOwnThreadShouldExit] else []),
      th\<lparr>sources := map signalThreadShouldExit (sources th),
         self := (if threadRunning (self th) then signalThreadShouldExit (self th) else self th)\<rparr>) \<and>
   map shouldExit (sources (snd (snd (stopAcquisition_t th)))) =
     replicate (length (sources th)) True \<and>
   threads_running (snd (snd (stopAcquisition_t th))) = threads_running th \<and>
   threadRunning (self (snd (snd (stopAcquisition_t th)))) = threadRunning (self th)"
  by (simp add: stopAcquisition_def stopAcquisition_t_def signalThreads_closed
      threads_running_def signalThreadShouldExit_def o_def map_replicate_const)

text \<open>
  Claim C9. Two rebuilds with the same settings deliver the same streams, the same
  channels and the same sync lines, in the same order, whatever the states they start
  from; a second rebuild in a row changes nothing.
\<close>

theorem rebuild_is_deterministic:
  "dataStreams (updateSettings settings st1) = dataStreams (updateSettings settings st2) \<and>
   continuousChannels (updateSettings settings st1) =
     continuousChannels (updateSettings settings st2) \<and>
   eventChannels (updateSettings settings st1) = eventChannels (updateSettings settings st2) \<and>
   updateSettings settings (updateSettings settings st1) = updateSettings settings st1"
  by (simp add: updateSettings_def clearAll_new)

text \<open>
  Claim C10. Whatever the configuration, every buffer made by \<open>updateSettings\<close> has
  capacity 48000 and every buffer made by \<open>generateBuffers\<close> has capacity 1000; in both,
  the source at position \<open>k\<close> points to the buffer at position \<open>k\<close>, and there are as
  many sources as buffers.
\<close>

theorem buffers_fixed_capacity_and_bound:
  "map bufSize (sourceBuffers (updateSettings settings st)) =
     replicate (length (sourceBuffers (updateSettings settings st))) 48000 \<and>
   map buffer (sources (updateSettings settings st)) =
     map Some [0..<length (sourceBuffers (updateSettings settings st))] \<and>
   length (sources (updateSettings settings st)) =
     length (sourceBuffers (updateSettings settings st)) \<and>
   map bufSize (sourceBuffers (generateBuffers K th)) =
     replicate (length (sourceBuffers (generateBuffers K th))) 1000 \<and>
   map buffer (sources (generateBuffers K th)) =
     map Some [0..<length (sourceBuffers (generateBuffers K th))] \<and>
   length (sources (generateBuffers K th)) = length (sourceBuffers (generateBuffers K th))"
  using updateSettings_paired(1) [of settings st] generateBuffers_paired [of K th]
    paired_length [OF updateSettings_paired(1), of settings st]
    paired_length [OF generateBuffers_paired, of K th]
  by (simp add: paired_def)

end
